theory Spec2Isabelle
  imports Main "HOL-Library.Word" "HOL-Library.Signed_Division"
begin

section \<open>The job queue of src/tools/jobqueue.hpp\<close>

text \<open>
  The header defines a job (\<open>JobT\<close>, one virtual \<open>run\<close>), a queue of jobs drained by a
  team of OpenMP threads (\<open>JobQueueT\<close>), and two groups a queue can belong to
  (\<open>DefaultJobQueueGroup\<close>, \<open>NumaJobQueueGroup\<close>).

  What the header takes from outside is a parameter of the model:
  \<^item> \<open>JobT::run\<close> is pure virtual. A job is a value of a type \<open>'j\<close>, and \<open>run\<close> is a
    function giving, for a job, the boolean it returns and the jobs it enqueues on the
    queue it is handed as cookie;
  \<^item> \<open>omp_get_max_threads()\<close>, \<open>numa_num_configured_nodes()\<close> and the global
    \<open>gopt_memory_type\<close> are fields of the record \<open>env\<close>;
  \<^item> what the OpenMP runtime does with a \<open>num_threads\<close> request that is not positive
    is outside what OpenMP defines. Either the runtime reads the request as no request
    and forms the default team (the GNU runtime does so for 0), or the process is
    killed before any thread of the region runs (the GNU runtime for a negative
    request, which it reads as an unsigned number of threads it cannot create). The
    field \<open>omp_reads_as_unset\<close> of \<open>env\<close> says which.
\<close>

subsection \<open>Environment and C arithmetic\<close>

record env =
  omp_max_threads :: int
  numa_configured_nodes :: int
  gopt_memory_type :: string
  omp_reads_as_unset :: "int \<Rightarrow> bool"

text \<open>
  The only failure written in the header is the \<open>assert\<close> closing \<open>loop\<close> and
  \<open>numaLoop\<close>. \<open>ConfigurationError\<close> is the name the specification gives to a rejected
  launch parameter; no statement of the header produces it.
\<close>

datatype error = AssertionFailed | ConfigurationError

type_synonym 'j run_fn = "'j \<Rightarrow> bool \<times> 'j list"

subsection \<open>JobQueueT: fields and sequential members\<close>

text \<open>
  \<open>m_queue\<close> is the \<open>tbb::concurrent_queue\<close>, a FIFO list whose \<open>push\<close> and \<open>try_pop\<close> are
  atomic. \<open>m_numthrs\<close>, \<open>m_idle_count\<close> and \<open>m_id\<close> are \<open>unsigned\<close>, hence 32-bit words.
  The references \<open>m_cookie\<close> and \<open>m_group\<close> are not fields of the model: the cookie is
  only handed to \<open>run\<close>, and the group is the \<open>assist\<close> parameter of the worker step.
\<close>

record 'j JobQueueT =
  m_queue :: "'j list"
  m_numthrs :: "32 word"
  m_idle_count :: "32 word"
  m_id :: "32 word"

text \<open>The constructor leaves \<open>m_id\<close> uninitialised; it is the argument \<open>i\<close> here.\<close>

definition JobQueueT_new :: "32 word \<Rightarrow> 'j JobQueueT" where
  "JobQueueT_new i = \<lparr>m_queue = [], m_numthrs = 0, m_idle_count = 0, m_id = i\<rparr>"

definition has_idle :: "'j JobQueueT \<Rightarrow> bool" where
  "has_idle q = (m_idle_count q \<noteq> 0)"

definition enqueue :: "'j \<Rightarrow> 'j JobQueueT \<Rightarrow> 'j JobQueueT" where
  "enqueue job q = q\<lparr>m_queue := m_queue q @ [job]\<rparr>"

definition set_id :: "32 word \<Rightarrow> 'j JobQueueT \<Rightarrow> 'j JobQueueT" where
  "set_id i q = q\<lparr>m_id := i\<rparr>"

subsection \<open>NumaJobQueueGroup: thread distribution\<close>

text \<open>
  \<open>calcThreadNum(int k, int numJobQueues)\<close>. The C++ \<open>/\<close> and \<open>%\<close> on \<open>int\<close> truncate
  towards zero (\<open>sdiv\<close>, \<open>smod\<close>); a zero divisor is undefined behaviour, \<open>None\<close> here.
  The \<open>int\<close> result is converted to the \<open>unsigned\<close> return type.
\<close>

definition calcThreadNum :: "env \<Rightarrow> int \<Rightarrow> int \<Rightarrow> 32 word option" where
  "calcThreadNum e k numJobQueues =
     (if numJobQueues = 0 then None
      else
        let numThreadsPerNode = omp_max_threads e sdiv numJobQueues;
            remainThreads = omp_max_threads e smod numJobQueues;
            nodeThreads = (if k < remainThreads then numThreadsPerNode + 1
                           else numThreadsPerNode)
        in Some (word_of_int nodeThreads))"

text \<open>
  \<open>numaLaunch()\<close>. The body of the \<open>parallel for\<close> computes, for the iteration \<open>k\<close>, the
  two arguments of \<open>m_queues[k]->numaLoop(numaNode, nodeThreads)\<close>. Every iteration
  \<open>0 \<le> k < numJobQueues\<close> is run once by some thread of the outer team of
  \<open>runThreads\<close> threads, so the launch is the list of these calls in the order of \<open>k\<close>.
\<close>

record numa_call =
  queue_index :: nat
  arg_numaNode :: int
  arg_numberOfThreads :: int

definition numaLaunch_body :: "env \<Rightarrow> int \<Rightarrow> nat \<Rightarrow> numa_call" where
  "numaLaunch_body e numJobQueues k =
     (let realNumaNodes = (if numa_configured_nodes e < 1 then 1
                           else numa_configured_nodes e);
          numThreadsPerNode = omp_max_threads e sdiv numJobQueues;
          remainThreads = omp_max_threads e smod numJobQueues;
          nodeThreads = (if int k < remainThreads then numThreadsPerNode + 1
                         else numThreadsPerNode);
          numaNode = int k smod realNumaNodes
      in \<lparr>queue_index = k,
          arg_numaNode = numaNode,
          arg_numberOfThreads = (if nodeThreads = 0 then 1 else nodeThreads)\<rparr>)"

definition runThreads :: "env \<Rightarrow> nat \<Rightarrow> int" where
  "runThreads e numJobQueues = min (omp_max_threads e) (int numJobQueues)"

text \<open>
  With no registered queue the first statement divides by zero: undefined behaviour,
  \<open>None\<close>.
\<close>

definition numaLaunch :: "env \<Rightarrow> nat \<Rightarrow> numa_call list option" where
  "numaLaunch e numJobQueues =
     (if numJobQueues = 0 then None
      else Some (map (numaLaunch_body e (int numJobQueues)) [0..<numJobQueues]))"

subsection \<open>The two assist operations\<close>

text \<open>
  \<open>DefaultJobQueueGroup::assist(unsigned)\<close> is static and ignores its argument. The
  queues are passed through so that its effect on them can be stated.
\<close>

definition DefaultJobQueueGroup_assist ::
  "'j JobQueueT list \<Rightarrow> 32 word \<Rightarrow> bool \<times> 'j JobQueueT list" where
  "DefaultJobQueueGroup_assist qs qid = (False, qs)"

text \<open>
  \<open>NumaJobQueueGroup::assist(unsigned qid)\<close>. The \<open>for\<close> loop runs \<open>i\<close> from 1 while
  \<open>i < m_queues.size()\<close>; its body advances the 32-bit \<open>id\<close> with wrap to 0 at the
  number of queues. \<open>assist_loop\<close> is that loop, returning the last \<open>id\<close>. The function
  then returns \<open>false\<close>; no statement reads or writes a queue.
\<close>

function assist_loop :: "nat \<Rightarrow> nat \<Rightarrow> 32 word \<Rightarrow> 32 word" where
  "assist_loop sz i ident =
     (if i < sz
      then assist_loop sz (Suc i) (if sz \<le> unat (ident + 1) then 0 else ident + 1)
      else ident)"
  by pat_completeness auto
termination
  by (relation "measure (\<lambda>(sz, i, ident). sz - i)") auto

declare assist_loop.simps [simp del]

definition NumaJobQueueGroup_assist ::
  "'j JobQueueT list \<Rightarrow> 32 word \<Rightarrow> bool \<times> 'j JobQueueT list" where
  "NumaJobQueueGroup_assist m_queues qid =
     (let ident = assist_loop (length m_queues) 1 qid in (False, m_queues))"

text \<open>\<open>add_jobqueue(jq)\<close>: the queue gets the next id and is appended.\<close>

definition add_jobqueue :: "'j JobQueueT \<Rightarrow> 'j JobQueueT list \<Rightarrow> 'j JobQueueT list" where
  "add_jobqueue jq m_queues = m_queues @ [set_id (of_nat (length m_queues)) jq]"

subsection \<open>The parallel region\<close>

text \<open>
  A launch is an OpenMP parallel region whose threads all run \<open>executeThreadWork\<close> on
  the same queue. A \<open>region\<close> is the shared state and one control point per thread:
  \<^item> \<open>jq\<close>, the queue object;
  \<^item> \<open>freed\<close>, the jobs on which \<open>delete\<close> has been called, latest first;
  \<^item> \<open>pinned\<close>, the node given to \<open>numa_run_on_node\<close> and \<open>numa_set_preferred\<close>, if any;
  \<^item> \<open>thr\<close>, where each thread stands in \<open>executeThreadWork\<close>.

  The control points follow the source lines. A thread holding a popped job carries it
  (the local variable \<open>job\<close>).
\<close>

datatype 'j pc =
    AtStart        \<comment> \<open>before \<open>m_numthrs = omp_get_num_threads()\<close>\<close>
  | DrainPop       \<comment> \<open>at \<open>while (m_queue.try_pop(job))\<close>\<close>
  | DrainRun 'j    \<comment> \<open>at \<open>if (job->run(m_cookie)) delete job\<close> of the drain loop\<close>
  | IdleInc        \<comment> \<open>at \<open>++m_idle_count\<close>\<close>
  | RetryPop       \<comment> \<open>at \<open>while (!m_queue.try_pop(job))\<close>\<close>
  | IdleCheck      \<comment> \<open>at \<open>if (m_idle_count == m_numthrs)\<close>\<close>
  | Assisting      \<comment> \<open>at \<open>while (m_group->assist(m_id)) { }\<close>\<close>
  | IdleDec 'j     \<comment> \<open>at \<open>--m_idle_count\<close>\<close>
  | IdleRun 'j     \<comment> \<open>at \<open>if (job->run(m_cookie)) delete job\<close> after the retry loop\<close>
  | Returned       \<comment> \<open>after \<open>return\<close>\<close>

record 'j region =
  jq :: "'j JobQueueT"
  freed :: "'j list"
  pinned :: "int option"
  thr :: "'j pc list"

text \<open>What a thread did in one step, for statements about the order of its actions.\<close>

datatype 'j event =
    SetNumThreads
  | PopOk 'j
  | PopFail
  | Ran 'j bool      \<comment> \<open>\<open>run\<close> called on the job, and what it returned\<close>
  | IdleUp
  | IdleDown
  | Compared "32 word" "32 word"
      \<comment> \<open>the values of \<open>m_idle_count\<close> and \<open>m_numthrs\<close> read by \<open>==\<close>\<close>
  | Assisted bool    \<comment> \<open>the value \<open>assist\<close> returned\<close>

text \<open>
  \<open>if (job->run(m_cookie)) delete job;\<close> The jobs that \<open>run\<close> enqueues go to the back
  of the queue; the job is deleted when \<open>run\<close> returned \<open>true\<close>. The body of \<open>run\<close> is
  not part of the header, so the call, its enqueues and the \<open>delete\<close> are taken as one
  step: the model has no execution in which another thread pops a job between two
  enqueues of one \<open>run\<close>, or deletes a child before the parent's \<open>run\<close> has returned.
  Which jobs are deleted does not depend on this, only the order of the deletions.
\<close>

definition run_job :: "'j run_fn \<Rightarrow> 'j \<Rightarrow> 'j region \<Rightarrow> 'j region" where
  "run_job run job w =
     (case run job of (destroy, spawned) \<Rightarrow>
        w\<lparr>jq := (jq w)\<lparr>m_queue := m_queue (jq w) @ spawned\<rparr>,
          freed := (if destroy then job # freed w else freed w)\<rparr>)"

text \<open>\<open>try_run()\<close>, a member no other code of the header calls.\<close>

definition try_run :: "'j run_fn \<Rightarrow> 'j region \<Rightarrow> bool \<times> 'j region" where
  "try_run run w =
     (case m_queue (jq w) of
        [] \<Rightarrow> (m_idle_count (jq w) \<noteq> m_numthrs (jq w), w)
      | job # rest \<Rightarrow> (True, run_job run job (w\<lparr>jq := (jq w)\<lparr>m_queue := rest\<rparr>\<rparr>)))"

text \<open>
  One step of one thread of \<open>executeThreadWork\<close>: from its control point and the shared
  state to the event, its next control point and the new shared state. A step is one
  \<open>try_pop\<close>, one operation on the atomic counter, one call of \<open>assist\<close>, or one call of
  \<open>run\<close> with the \<open>delete\<close> that follows it. \<open>omp_get_num_threads()\<close> is the size of
  the team, the length of \<open>thr\<close>. A thread that has returned takes no step.
\<close>

fun thread_step ::
  "'j run_fn \<Rightarrow> (32 word \<Rightarrow> bool) \<Rightarrow> 'j pc \<Rightarrow> 'j region \<Rightarrow> ('j event \<times> 'j pc \<times> 'j region) option"
where
  "thread_step run assist AtStart w =
     Some (SetNumThreads, DrainPop, w\<lparr>jq := (jq w)\<lparr>m_numthrs := of_nat (length (thr w))\<rparr>\<rparr>)"
| "thread_step run assist DrainPop w =
     (case m_queue (jq w) of
        [] \<Rightarrow> Some (PopFail, IdleInc, w)
      | job # rest \<Rightarrow> Some (PopOk job, DrainRun job, w\<lparr>jq := (jq w)\<lparr>m_queue := rest\<rparr>\<rparr>))"
| "thread_step run assist (DrainRun job) w =
     Some (Ran job (fst (run job)), DrainPop, run_job run job w)"
| "thread_step run assist IdleInc w =
     Some (IdleUp, RetryPop, w\<lparr>jq := (jq w)\<lparr>m_idle_count := m_idle_count (jq w) + 1\<rparr>\<rparr>)"
| "thread_step run assist RetryPop w =
     (case m_queue (jq w) of
        [] \<Rightarrow> Some (PopFail, IdleCheck, w)
      | job # rest \<Rightarrow> Some (PopOk job, IdleDec job, w\<lparr>jq := (jq w)\<lparr>m_queue := rest\<rparr>\<rparr>))"
| "thread_step run assist IdleCheck w =
     (if m_idle_count (jq w) = m_numthrs (jq w)
      then Some (Compared (m_idle_count (jq w)) (m_numthrs (jq w)), Assisting, w)
      else Some (Compared (m_idle_count (jq w)) (m_numthrs (jq w)), RetryPop, w))"
| "thread_step run assist Assisting w =
     (if assist (m_id (jq w))
      then Some (Assisted True, Assisting, w)
      else Some (Assisted False, Returned, w))"
| "thread_step run assist (IdleDec job) w =
     Some (IdleDown, IdleRun job, w\<lparr>jq := (jq w)\<lparr>m_idle_count := m_idle_count (jq w) - 1\<rparr>\<rparr>)"
| "thread_step run assist (IdleRun job) w =
     Some (Ran job (fst (run job)), DrainPop, run_job run job w)"
| "thread_step run assist Returned w = None"

text \<open>
  The scheduler picks which thread moves next. \<open>step i\<close> moves thread \<open>i\<close>; picking a
  thread that has returned, or a number that is no thread of the team, changes nothing.
\<close>

definition step :: "'j run_fn \<Rightarrow> (32 word \<Rightarrow> bool) \<Rightarrow> nat \<Rightarrow> 'j region \<Rightarrow> 'j region" where
  "step run assist i w =
     (if i < length (thr w)
      then (case thread_step run assist (thr w ! i) w of
              None \<Rightarrow> w
            | Some (ev, p, w') \<Rightarrow> w'\<lparr>thr := (thr w')[i := p]\<rparr>)
      else w)"

definition step_event ::
  "'j run_fn \<Rightarrow> (32 word \<Rightarrow> bool) \<Rightarrow> nat \<Rightarrow> 'j region \<Rightarrow> 'j event option" where
  "step_event run assist i w =
     (if i < length (thr w)
      then map_option fst (thread_step run assist (thr w ! i) w)
      else None)"

text \<open>
  An execution of the region is a schedule, the list of the threads picked. \<open>exec\<close> is
  the state it leads to, \<open>trace\<close> the events with the thread that made each, and
  \<open>events_of i\<close> the events of thread \<open>i\<close> alone, all in the order they happened.
\<close>

fun exec :: "'j run_fn \<Rightarrow> (32 word \<Rightarrow> bool) \<Rightarrow> nat list \<Rightarrow> 'j region \<Rightarrow> 'j region" where
  "exec run assist [] w = w"
| "exec run assist (i # sched) w = exec run assist sched (step run assist i w)"

fun trace ::
  "'j run_fn \<Rightarrow> (32 word \<Rightarrow> bool) \<Rightarrow> nat list \<Rightarrow> 'j region \<Rightarrow> (nat \<times> 'j event) list" where
  "trace run assist [] w = []"
| "trace run assist (i # sched) w =
     (case step_event run assist i w of
        None \<Rightarrow> trace run assist sched (step run assist i w)
      | Some ev \<Rightarrow> (i, ev) # trace run assist sched (step run assist i w))"

definition events_of :: "nat \<Rightarrow> (nat \<times> 'j event) list \<Rightarrow> 'j event list" where
  "events_of i tr = map snd (filter (\<lambda>x. fst x = i) tr)"

text \<open>The jobs whose \<open>run\<close> returned \<open>true\<close> in a trace, in the order they ran.\<close>

fun destroyed :: "(nat \<times> 'j event) list \<Rightarrow> 'j list" where
  "destroyed [] = []"
| "destroyed ((i, Ran job True) # tr) = job # destroyed tr"
| "destroyed (x # tr) = destroyed tr"

subsection \<open>loop and numaLoop\<close>

text \<open>
  \<open>#pragma omp parallel\<close> starts a team; every thread of it begins \<open>executeThreadWork\<close>.
\<close>

definition omp_parallel :: "'j JobQueueT \<Rightarrow> 'j list \<Rightarrow> int option \<Rightarrow> nat \<Rightarrow> 'j region" where
  "omp_parallel q fr node team =
     \<lparr>jq = q, freed = fr, pinned = node, thr = replicate team AtStart\<rparr>"

text \<open>
  \<open>loop()\<close> resets the idle counter and opens a region with no \<open>num_threads\<close> clause:
  the team has \<open>omp_get_max_threads()\<close> threads. They are tied to node 0 when
  \<open>gopt_memory_type\<close> is \<open>mmap_node0\<close>.
\<close>

definition loop_begin :: "env \<Rightarrow> 'j JobQueueT \<Rightarrow> 'j list \<Rightarrow> 'j region" where
  "loop_begin e q fr =
     omp_parallel (q\<lparr>m_idle_count := 0\<rparr>) fr
       (if gopt_memory_type e = ''mmap_node0'' then Some 0 else None)
       (nat (omp_max_threads e))"

text \<open>
  \<open>numaLoop(numaNode, numberOfThreads)\<close> opens the region with
  \<open>num_threads(numberOfThreads)\<close>, every thread tied to \<open>numaNode\<close>, and does not touch
  the idle counter. There is no test of \<open>numberOfThreads\<close>. A positive request is the
  size of the team (nested regions are enabled by \<open>numaLaunch\<close>, and the runtime grants
  the request). A request that is not positive is left to the runtime: the default
  team when the runtime reads it as no request, and otherwise no region at all
  (\<open>None\<close>: the process is killed, no worker runs and the call does not return).
\<close>

definition numaLoop_begin ::
  "env \<Rightarrow> 'j JobQueueT \<Rightarrow> 'j list \<Rightarrow> int \<Rightarrow> int \<Rightarrow> 'j region option" where
  "numaLoop_begin e q fr numaNode numberOfThreads =
     (if 1 \<le> numberOfThreads
      then Some (omp_parallel q fr (Some numaNode) (nat numberOfThreads))
      else if omp_reads_as_unset e numberOfThreads
      then Some (omp_parallel q fr (Some numaNode) (nat (omp_max_threads e)))
      else None)"

fun has_returned :: "'j pc \<Rightarrow> bool" where
  "has_returned Returned = True"
| "has_returned p = False"

text \<open>
  The region ends when every thread has returned; then
  \<open>assert(m_queue.unsafe_size() == 0)\<close> is evaluated. \<open>None\<close>: the call has not
  returned, either because the schedule ended with a thread still in its loop or
  because the runtime opened no region.
\<close>

definition region_end :: "'j region \<Rightarrow> (error + 'j region) option" where
  "region_end w =
     (if list_all has_returned (thr w)
      then Some (if m_queue (jq w) = [] then Inr w else Inl AssertionFailed)
      else None)"


definition numaLoop ::
  "'j run_fn \<Rightarrow> (32 word \<Rightarrow> bool) \<Rightarrow> env \<Rightarrow> nat list \<Rightarrow> 'j JobQueueT \<Rightarrow> 'j list \<Rightarrow> int \<Rightarrow> int
     \<Rightarrow> (error + 'j region) option" where
  "numaLoop run assist e sched q fr numaNode numberOfThreads =
     (case numaLoop_begin e q fr numaNode numberOfThreads of
        None \<Rightarrow> None
      | Some w \<Rightarrow> region_end (exec run assist sched w))"

text \<open>
  The regions \<open>numaLaunch\<close> opens: its call for the iteration \<open>k\<close> is made on the queue
  \<open>m_queues[k]\<close>.
\<close>

definition numaLaunch_regions ::
  "env \<Rightarrow> 'j list \<Rightarrow> 'j JobQueueT list \<Rightarrow> 'j region option list option" where
  "numaLaunch_regions e fr m_queues =
     map_option
       (map (\<lambda>c. numaLoop_begin e (m_queues ! queue_index c) fr
                   (arg_numaNode c) (arg_numberOfThreads c)))
       (numaLaunch e (length m_queues))"



subsection \<open>Sample jobs\<close>

text \<open>
  A concrete family of jobs for running the model: a job is the boolean its \<open>run\<close>
  returns and the jobs it enqueues, a finite tree.
\<close>

datatype sample_job = SampleJob (destroy: bool) (spawns: "sample_job list")

definition sample_run :: "sample_job run_fn" where
  "sample_run job = (destroy job, spawns job)"

subsection \<open>Invariants of the region\<close>







section \<open>Properties\<close>

subsection \<open>Thread distribution and node mapping\<close>

lemma sdiv_nonneg: "0 \<le> a \<Longrightarrow> 0 < b \<Longrightarrow> (a::int) sdiv b = a div b"
  by (cases "a = 0") (simp_all add: signed_divide_int_def)

lemma smod_nonneg: "0 \<le> a \<Longrightarrow> 0 < b \<Longrightarrow> (a::int) smod b = a mod b"
  by (cases "a = 0") (simp_all add: signed_modulo_int_def)

lemma extra_sum:
  "r \<le> K \<Longrightarrow> (\<Sum>k<K. (if k < r then 1 else 0::int)) = int r"
proof (induction K)
  case 0 then show ?case by simp
next
  case (Suc K)
  show ?case
  proof (cases "r = Suc K")
    case True then show ?thesis by simp
  next
    case False
    with Suc.prems have "r \<le> K" by simp
    with Suc.IH show ?thesis by simp
  qed
qed

lemma share_sum:
  fixes T :: int
  assumes "0 < K"
  shows "(\<Sum>k<K. T div int K + (if int k < T mod int K then 1 else 0)) = T"
proof -
  define r where "r = nat (T mod int K)"
  have r: "int r = T mod int K" "r \<le> K"
    using assms by (simp_all add: r_def nat_le_iff less_imp_le)
  have "(\<Sum>k<K. (if int k < T mod int K then 1 else 0::int))
          = (\<Sum>k<K. (if k < r then 1 else 0::int))"
    by (rule sum.cong) (simp_all add: r(1)[symmetric])
  also have "\<dots> = int r" using r(2) by (rule extra_sum)
  finally have "(\<Sum>k<K. (if int k < T mod int K then 1 else 0::int)) = T mod int K"
    using r by simp
  then show ?thesis
    by (simp add: sum.distrib)
qed

lemma uint_of_int32:
  "0 \<le> x \<Longrightarrow> x < 2 ^ 32 \<Longrightarrow> uint (word_of_int x :: 32 word) = x"
  by (simp add: uint_word_of_int)

text \<open>
  C5. With \<open>T = omp_get_max_threads()\<close> threads and \<open>K\<close> queues, \<open>1 \<le> K \<le> T\<close>,
  \<open>calcThreadNum(k, K)\<close> is \<open>T div K\<close>, plus one when \<open>k < T mod K\<close>, for every queue
  \<open>k < K\<close>; and these counts add up to \<open>T\<close>. \<open>T\<close> is a C \<open>int\<close>, hence below \<open>2^31\<close>.
\<close>

theorem calcThreadNum_balanced:
  assumes T: "omp_max_threads e = T" and K: "1 \<le> K" "int K \<le> T" and R: "T < 2 ^ 31"
  shows "(\<forall>k<K. \<exists>n. calcThreadNum e (int k) (int K) = Some n \<and>
            uint n = T div int K + (if int k < T mod int K then 1 else 0)) \<and>
         (\<Sum>k<K. uint (the (calcThreadNum e (int k) (int K)))) = T"
proof -
  let ?share = "\<lambda>k. T div int K + (if int k < T mod int K then 1 else 0)"
  have share: "calcThreadNum e (int k) (int K) = Some (word_of_int (?share k))" for k
    using T K by (simp add: calcThreadNum_def sdiv_nonneg smod_nonneg Let_def)
  have "T div int K \<le> T" using K zdiv_mono2[of T 1 "int K"] by simp
  moreover have "0 \<le> T div int K" using K by (simp add: pos_imp_zdiv_nonneg_iff)
  ultimately have bound: "0 \<le> ?share k" "?share k < 2 ^ 32" for k
    using R by auto
  have val: "uint (word_of_int (?share k) :: 32 word) = ?share k" for k
    using bound[of k] by (rule uint_of_int32)
  have "(\<Sum>k<K. uint (the (calcThreadNum e (int k) (int K)))) = (\<Sum>k<K. ?share k)"
    by (simp only: share option.sel val)
  also have "\<dots> = T" using K by (intro share_sum) simp
  finally show ?thesis using share val by simp
qed

theorem calcThreadNum_balanced_witness:
  "(\<Sum>k<3. uint (the (calcThreadNum
      \<lparr>omp_max_threads = 7, numa_configured_nodes = 2, gopt_memory_type = ''default'',
        omp_reads_as_unset = (=) 0\<rparr>
      (int k) (int 3)))) = 7 \<and>
   calcThreadNum
      \<lparr>omp_max_threads = 7, numa_configured_nodes = 2, gopt_memory_type = ''default'',
        omp_reads_as_unset = (=) 0\<rparr>
      0 3 = Some 3"
  using calcThreadNum_balanced
    [where T = 7 and K = 3 and e = "\<lparr>omp_max_threads = 7, numa_configured_nodes = 2,
        gopt_memory_type = ''default'', omp_reads_as_unset = (=) 0\<rparr>"]
  by (simp add: calcThreadNum_def signed_divide_int_def signed_modulo_int_def numeral_3_eq_3)

lemma numaLaunch_length: "numaLaunch e K = Some calls \<Longrightarrow> length calls = K"
  by (auto simp: numaLaunch_def split: if_splits)

lemma numaLaunch_nth:
  "numaLaunch e K = Some calls \<Longrightarrow> k < K \<Longrightarrow> calls ! k = numaLaunch_body e (int K) k"
  by (auto simp: numaLaunch_def split: if_splits)

lemma numaLoop_begin_positive:
  "1 \<le> n \<Longrightarrow> numaLoop_begin e q fr node n = Some (omp_parallel q fr (Some node) (nat n))"
  by (simp add: numaLoop_begin_def)


lemma nodeThreads_positive:
  fixes T K k :: int
  assumes "1 \<le> T" "0 < K"
  shows "1 \<le> (let n = (if k < T smod K then T sdiv K + 1 else T sdiv K)
              in if n = 0 then 1 else n)"
proof -
  have "0 \<le> T div K" using assms by (simp add: pos_imp_zdiv_nonneg_iff)
  then show ?thesis using assms by (auto simp: sdiv_nonneg smod_nonneg Let_def)
qed

lemma nodeThreads_one:
  fixes T K k :: int
  assumes "1 \<le> T" "T < K"
  shows "(let n = (if k < T smod K then T sdiv K + 1 else T sdiv K)
          in if n = 0 then 1 else n) = 1"
  using assms by (auto simp: sdiv_nonneg smod_nonneg Let_def)

lemma numaLaunch_body_threads:
  assumes "1 \<le> omp_max_threads e" and "1 \<le> K"
  shows "1 \<le> arg_numberOfThreads (numaLaunch_body e (int K) k)"
proof -
  have "0 < int K" using assms(2) by simp
  from nodeThreads_positive[OF assms(1) this, of "int k"]
  show ?thesis by (simp add: numaLaunch_body_def Let_def)
qed

lemma thread_step_pinned:
  "thread_step run assist p w = Some (ev, p', w') \<Longrightarrow> pinned w' = pinned w"
  by (cases p) (auto simp: run_job_def split: list.splits if_splits prod.splits)

lemma pinned_step: "pinned (step run assist i w) = pinned w"
  by (auto simp: step_def split: option.splits dest: thread_step_pinned)

lemma pinned_exec: "pinned (exec run assist sched w) = pinned w"
  by (induction sched arbitrary: w) (simp_all add: pinned_step)

text \<open>
  C6. With \<open>K \<ge> 1\<close> registered queues and \<open>R \<ge> 1\<close> configured NUMA nodes, \<open>numaLaunch\<close>
  makes one \<open>numaLoop\<close> call per queue; the call for queue \<open>k\<close> is given the node
  \<open>k mod R\<close>, whether or not \<open>R < K\<close>, and the region it opens works on the queue
  \<open>m_queues[k]\<close> with its threads tied to the node \<open>k mod R\<close>, at its start and at every
  point of every schedule. \<open>omp_get_max_threads()\<close> is at least 1.
\<close>

theorem numaLaunch_node_mapping:
  assumes "m_queues \<noteq> []" and "K = length m_queues"
    and "numa_configured_nodes e = R" and "1 \<le> R" and "1 \<le> omp_max_threads e"
  shows "\<exists>calls regions.
           numaLaunch e K = Some calls \<and> length calls = K \<and>
           numaLaunch_regions e fr m_queues = Some regions \<and> length regions = K \<and>
           (\<forall>k<K. queue_index (calls ! k) = k \<and> arg_numaNode (calls ! k) = int k mod R \<and>
              (\<exists>w0. regions ! k = Some w0 \<and> jq w0 = m_queues ! k \<and>
                 pinned w0 = Some (int k mod R) \<and>
                 pinned (exec run assist sched w0) = Some (int k mod R)))"
proof -
  have K: "1 \<le> K" using assms(1,2) by (cases m_queues) simp_all
  define calls where "calls = map (numaLaunch_body e (int K)) [0..<K]"
  define regions :: "'a region option list" where
    "regions = map (\<lambda>c. numaLoop_begin e (m_queues ! queue_index c) fr
                   (arg_numaNode c) (arg_numberOfThreads c)) calls"
  have launch: "numaLaunch e K = Some calls"
    using K by (simp add: numaLaunch_def calls_def)
  have regs: "numaLaunch_regions e fr m_queues = Some regions"
    using launch assms(2) by (simp add: numaLaunch_regions_def regions_def)
  have each: "queue_index (calls ! k) = k \<and> arg_numaNode (calls ! k) = int k mod R \<and>
      (\<exists>w0. regions ! k = Some w0 \<and> jq w0 = m_queues ! k \<and>
         pinned w0 = Some (int k mod R) \<and>
         pinned (exec run assist sched w0) = Some (int k mod R))" if "k < K" for k
  proof -
    have c: "calls ! k = numaLaunch_body e (int K) k" using that by (simp add: calls_def)
    have qi: "queue_index (calls ! k) = k" by (simp add: c numaLaunch_body_def Let_def)
    have node: "arg_numaNode (calls ! k) = int k mod R"
      using assms(3,4) by (simp add: c numaLaunch_body_def Let_def smod_nonneg)
    have "1 \<le> arg_numberOfThreads (calls ! k)"
      unfolding c using assms(5) K by (rule numaLaunch_body_threads)
    then have "regions ! k = Some (omp_parallel (m_queues ! k) fr (Some (int k mod R))
        (nat (arg_numberOfThreads (calls ! k))))"
      using that qi node by (simp add: regions_def calls_def numaLoop_begin_positive)
    then show ?thesis using qi node by (simp add: omp_parallel_def pinned_exec)
  qed
  have "length calls = K" "length regions = K" by (simp_all add: calls_def regions_def)
  with launch regs each show ?thesis by blast
qed

theorem numaLaunch_node_mapping_witness:
  "\<exists>calls regions. numaLaunch
      \<lparr>omp_max_threads = 8, numa_configured_nodes = 2, gopt_memory_type = ''default'',
        omp_reads_as_unset = (=) 0\<rparr> 3
      = Some calls \<and> map arg_numaNode calls = [0, 1, 0] \<and>
     numaLaunch_regions
      \<lparr>omp_max_threads = 8, numa_configured_nodes = 2, gopt_memory_type = ''default'',
        omp_reads_as_unset = (=) 0\<rparr> []
      [JobQueueT_new 0, JobQueueT_new 1, enqueue (SampleJob True []) (JobQueueT_new 2)]
      = Some regions \<and> map (map_option pinned) regions = [Some (Some 0), Some (Some 1), Some (Some 0)]"
  using numaLaunch_node_mapping
    [where m_queues = "[JobQueueT_new 0, JobQueueT_new 1,
                        enqueue (SampleJob True []) (JobQueueT_new 2)]"
       and K = 3 and R = 2 and fr = "[]" and sched = "[]" and run = sample_run
       and assist = "fst \<circ> DefaultJobQueueGroup_assist ([] :: sample_job JobQueueT list)"
       and e = "\<lparr>omp_max_threads = 8, numa_configured_nodes = 2, gopt_memory_type = ''default'',
        omp_reads_as_unset = (=) 0\<rparr>"]
  by (simp add: numaLaunch_regions_def numaLaunch_def numaLaunch_body_def numaLoop_begin_def
      omp_parallel_def signed_modulo_int_def signed_divide_int_def upt_conv_Cons)

text \<open>
  C10. With \<open>K \<ge> 1\<close> registered queues, \<open>numaLaunch\<close> makes its \<open>K\<close> calls of \<open>numaLoop\<close>
  and asks for at least one thread for every registered queue, and the
  region \<open>numaLoop\<close> then opens has that many threads. When there are more queues than
  threads (\<open>T < K\<close>, the share \<open>T div K\<close> is 0) every queue is launched with exactly one
  thread. \<open>T = omp_get_max_threads()\<close> is at least 1.
\<close>

theorem numaLaunch_at_least_one_thread:
  assumes "1 \<le> K" and "omp_max_threads e = T" and "1 \<le> T"
  shows "\<exists>calls. numaLaunch e K = Some calls \<and> length calls = K \<and>
           (\<forall>c \<in> set calls. 1 \<le> arg_numberOfThreads c \<and>
              (\<exists>w0. numaLoop_begin e q fr (arg_numaNode c) (arg_numberOfThreads c) = Some w0 \<and>
                 length (thr w0) = nat (arg_numberOfThreads c))) \<and>
           (T < int K \<longrightarrow> (\<forall>c \<in> set calls. arg_numberOfThreads c = 1))"
proof -
  have K: "0 < int K" using assms(1) by simp
  define calls where "calls = map (numaLaunch_body e (int K)) [0..<K]"
  have launch: "numaLaunch e K = Some calls"
    using assms(1) by (simp add: numaLaunch_def calls_def)
  have pos: "1 \<le> arg_numberOfThreads (numaLaunch_body e (int K) k)" for k
    using nodeThreads_positive[OF assms(3) K, of "int k"] assms(2)
    by (simp add: numaLaunch_body_def Let_def)
  have one: "arg_numberOfThreads (numaLaunch_body e (int K) k) = 1" if "T < int K" for k
    using nodeThreads_one[OF assms(3) that, of "int k"] assms(2)
    by (simp add: numaLaunch_body_def Let_def)
  have "length calls = K \<and>
      (\<forall>c \<in> set calls. 1 \<le> arg_numberOfThreads c \<and>
         (\<exists>w0. numaLoop_begin e q fr (arg_numaNode c) (arg_numberOfThreads c) = Some w0 \<and>
            length (thr w0) = nat (arg_numberOfThreads c))) \<and>
      (T < int K \<longrightarrow> (\<forall>c \<in> set calls. arg_numberOfThreads c = 1))"
    using pos one by (auto simp: calls_def numaLoop_begin_positive omp_parallel_def)
  with launch show ?thesis by blast
qed

theorem numaLaunch_at_least_one_thread_witness:
  "\<exists>calls. numaLaunch
      \<lparr>omp_max_threads = 2, numa_configured_nodes = 1, gopt_memory_type = ''default'',
        omp_reads_as_unset = (=) 0\<rparr> 3
      = Some calls \<and> map arg_numberOfThreads calls = [1, 1, 1]"
  using numaLaunch_at_least_one_thread
    [where K = 3 and T = 2 and e = "\<lparr>omp_max_threads = 2, numa_configured_nodes = 1,
        gopt_memory_type = ''default'', omp_reads_as_unset = (=) 0\<rparr>"]
  by (simp add: numaLaunch_def numaLaunch_body_def signed_modulo_int_def signed_divide_int_def
      upt_conv_Cons)

subsection \<open>The assist operations\<close>

text \<open>
  C9. For the Default group, \<open>assist\<close> returns \<open>false\<close> for every queue id and leaves
  every queue as it was.
\<close>

theorem DefaultJobQueueGroup_assist_none:
  "DefaultJobQueueGroup_assist qs qid = (False, qs)"
  by (simp add: DefaultJobQueueGroup_assist_def)

text \<open>
  C1. The Numa group's \<open>assist\<close> on a group of two queues, called for queue 0 while
  queue 1 holds the pending job 7: the round-robin index does reach 1, but the call
  returns \<open>false\<close> with the job still in queue 1. No pop and no run is attempted.
\<close>

theorem NumaJobQueueGroup_assist_leaves_sibling_job:
  "NumaJobQueueGroup_assist
     (add_jobqueue (enqueue (7::nat) (JobQueueT_new 0)) (add_jobqueue (JobQueueT_new 0) [])) 0
   = (False, [\<lparr>m_queue = [], m_numthrs = 0, m_idle_count = 0, m_id = 0\<rparr>,
              \<lparr>m_queue = [7], m_numthrs = 0, m_idle_count = 0, m_id = 1\<rparr>])
   \<and> assist_loop 2 1 0 = 1"
  by (simp add: NumaJobQueueGroup_assist_def add_jobqueue_def enqueue_def JobQueueT_new_def
      set_id_def assist_loop.simps)

subsection \<open>Steps and executions\<close>

lemma thread_step_thr:
  "thread_step run assist p w = Some (ev, p', w') \<Longrightarrow> thr w' = thr w"
  by (cases p) (auto simp: run_job_def split: list.splits if_splits prod.splits)

lemma length_thr_step [simp]: "length (thr (step run assist i w)) = length (thr w)"
  by (auto simp: step_def split: option.splits dest: thread_step_thr)

lemma length_thr_exec [simp]: "length (thr (exec run assist sched w)) = length (thr w)"
  by (induction sched arbitrary: w) simp_all





lemma events_of_append [simp]: "events_of i (xs @ ys) = events_of i xs @ events_of i ys"
  by (simp add: events_of_def)

subsection \<open>The only way out of the worker loop\<close>








subsection \<open>The queue is empty when the region ends\<close>










subsection \<open>The idle counter\<close>














subsection \<open>Deleting jobs\<close>

lemma freed_step:
  "freed (step run assist x w)
     = (case step_event run assist x w of
          Some (Ran job True) \<Rightarrow> job # freed w
        | _ \<Rightarrow> freed w)"
proof (cases "x < length (thr w)")
  case False
  then show ?thesis by (simp add: step_def step_event_def)
next
  case True
  then show ?thesis
    by (cases "thr w ! x")
       (auto simp: step_def step_event_def run_job_def split: list.splits prod.splits)
qed

lemma destroyed_Cons:
  "destroyed ((x, ev) # tr)
     = (case ev of Ran job d \<Rightarrow> (if d then job # destroyed tr else destroyed tr)
        | _ \<Rightarrow> destroyed tr)"
proof (cases ev)
  case (Ran job d)
  then show ?thesis by (cases d) simp_all
qed simp_all

lemma freed_exec:
  "freed (exec run assist sched w) = rev (destroyed (trace run assist sched w)) @ freed w"
proof (induction sched arbitrary: w)
  case Nil
  then show ?case by simp
next
  case (Cons x sched)
  show ?case
  proof (cases "step_event run assist x w")
    case None
    then show ?thesis using Cons.IH[of "step run assist x w"] by (simp add: freed_step)
  next
    case (Some ev)
    then show ?thesis using Cons.IH[of "step run assist x w"]
      by (cases ev) (simp_all add: freed_step destroyed_Cons del: destroyed.simps)
  qed
qed

lemma step_event_Ran:
  "step_event run assist x w = Some (Ran job d) \<Longrightarrow> d = fst (run job)"
  by (cases "thr w ! x")
     (auto simp: step_event_def split: if_splits list.splits)

lemma trace_Ran:
  "(x, Ran job d) \<in> set (trace run assist sched w) \<Longrightarrow> d = fst (run job)"
  by (induction sched arbitrary: w) (auto split: option.splits dest: step_event_Ran)

text \<open>
  C8. The jobs deleted during an execution of the worker loop are exactly the jobs
  whose \<open>run\<close> returned \<open>true\<close>, one deletion per such call and in the order of the
  calls; the boolean of a \<open>Ran\<close> event is what \<open>run\<close> returned for that job. The same
  holds for the one job \<open>try_run\<close> pops: it is deleted if and only if its \<open>run\<close>
  returned \<open>true\<close>, and nothing is deleted when the queue is empty.
\<close>

theorem job_deleted_iff_run_returned_true:
  "freed (exec run assist sched w) = rev (destroyed (trace run assist sched w)) @ freed w \<and>
   (\<forall>x \<in> set (trace run assist sched w). \<forall>job d. snd x = Ran job d \<longrightarrow> d = fst (run job)) \<and>
   freed (snd (try_run run w))
     = (case m_queue (jq w) of
          [] \<Rightarrow> freed w
        | job # rest \<Rightarrow> if fst (run job) then job # freed w else freed w)"
proof -
  have "\<forall>x \<in> set (trace run assist sched w). \<forall>job d. snd x = Ran job d \<longrightarrow> d = fst (run job)"
  proof (intro ballI allI impI)
    fix x job d
    assume "x \<in> set (trace run assist sched w)" and "snd x = Ran job d"
    then have "(fst x, Ran job d) \<in> set (trace run assist sched w)"
      using prod.collapse[of x] by simp
    then show "d = fst (run job)" by (rule trace_Ran)
  qed
  moreover have "freed (snd (try_run run w))
     = (case m_queue (jq w) of
          [] \<Rightarrow> freed w
        | job # rest \<Rightarrow> if fst (run job) then job # freed w else freed w)"
    by (auto simp: try_run_def run_job_def split: list.splits prod.splits)
  ultimately show ?thesis by (simp add: freed_exec)
qed

theorem job_deleted_iff_run_returned_true_witness:
  "freed (exec sample_run (fst \<circ> DefaultJobQueueGroup_assist ([] :: sample_job JobQueueT list))
      [0, 0, 0, 0, 0]
      (loop_begin \<lparr>omp_max_threads = 1, numa_configured_nodes = 1, gopt_memory_type = ''default'',
        omp_reads_as_unset = (=) 0\<rparr>
         (enqueue (SampleJob True []) (enqueue (SampleJob False []) (JobQueueT_new 0))) []))
     = [SampleJob True []] \<and>
   trace sample_run (fst \<circ> DefaultJobQueueGroup_assist ([] :: sample_job JobQueueT list))
      [0, 0, 0, 0, 0]
      (loop_begin \<lparr>omp_max_threads = 1, numa_configured_nodes = 1, gopt_memory_type = ''default'',
        omp_reads_as_unset = (=) 0\<rparr>
         (enqueue (SampleJob True []) (enqueue (SampleJob False []) (JobQueueT_new 0))) [])
     = [(0, SetNumThreads), (0, PopOk (SampleJob False [])), (0, Ran (SampleJob False []) False),
        (0, PopOk (SampleJob True [])), (0, Ran (SampleJob True []) True)]"
  using job_deleted_iff_run_returned_true
    [where run = sample_run
       and assist = "fst \<circ> DefaultJobQueueGroup_assist ([] :: sample_job JobQueueT list)"
       and sched = "[0, 0, 0, 0, 0]"
       and w = "loop_begin \<lparr>omp_max_threads = 1, numa_configured_nodes = 1, gopt_memory_type = ''default'',
        omp_reads_as_unset = (=) 0\<rparr>
         (enqueue (SampleJob True []) (enqueue (SampleJob False []) (JobQueueT_new 0))) []"]
  by (simp add: loop_begin_def omp_parallel_def JobQueueT_new_def enqueue_def step_def
      step_event_def run_job_def sample_run_def)

subsection \<open>A launch with zero threads requested\<close>

text \<open>
  C2, as stated, fails: \<open>numaLoop\<close> called with \<open>numberOfThreads = 0\<close> on a queue holding
  one job, with the Default group and a runtime that reads a 0 request as no request
  and has a default team of one thread. The call returns normally; a worker ran the
  job and deleted it.
\<close>

theorem numaLoop_zero_threads_runs:
  "numaLoop sample_run (fst \<circ> DefaultJobQueueGroup_assist ([] :: sample_job JobQueueT list))
      \<lparr>omp_max_threads = 1, numa_configured_nodes = 1, gopt_memory_type = ''default'',
        omp_reads_as_unset = (=) 0\<rparr>
      [0, 0, 0, 0, 0, 0, 0, 0] (enqueue (SampleJob True []) (JobQueueT_new 0)) [] 0 0
   = Some (Inr \<lparr>jq = \<lparr>m_queue = [], m_numthrs = 1, m_idle_count = 1, m_id = 0\<rparr>,
                freed = [SampleJob True []], pinned = Some 0, thr = [Returned]\<rparr>)"
  by (simp add: numaLoop_def numaLoop_begin_def omp_parallel_def JobQueueT_new_def enqueue_def
      region_end_def step_def run_job_def sample_run_def DefaultJobQueueGroup_assist_def)

text \<open>
  C2, amended. \<open>numaLoop\<close> makes no check of \<open>numberOfThreads\<close>: called with 0 it goes
  straight to the parallel region. Where the runtime reads the 0 as no request, the
  region opens on the queue as it is, with the default team of \<open>omp_get_max_threads()\<close>
  threads (at least one), every thread at the start of the worker loop; the outcome of
  the call is the outcome of that team's run, and it is not a \<open>ConfigurationError\<close>.
\<close>

theorem numaLoop_zero_request_starts_default_team:
  assumes "omp_reads_as_unset e 0" and "1 \<le> omp_max_threads e"
  shows "\<exists>w0. numaLoop_begin e q fr numaNode 0 = Some w0 \<and>
           jq w0 = q \<and> thr w0 = replicate (nat (omp_max_threads e)) AtStart \<and>
           1 \<le> length (thr w0) \<and>
           numaLoop run assist e sched q fr numaNode 0
             = region_end (exec run assist sched w0) \<and>
           numaLoop run assist e sched q fr numaNode 0 \<noteq> Some (Inl ConfigurationError)"
proof -
  let ?w0 = "omp_parallel q fr (Some numaNode) (nat (omp_max_threads e))"
  have opened: "numaLoop_begin e q fr numaNode 0 = Some ?w0"
    using assms(1) by (simp add: numaLoop_begin_def)
  then have outcome: "numaLoop run assist e sched q fr numaNode 0
      = region_end (exec run assist sched ?w0)"
    by (simp add: numaLoop_def)
  have "region_end (exec run assist sched ?w0) \<noteq> Some (Inl ConfigurationError)"
    by (auto simp: region_end_def)
  with opened outcome assms(2) show ?thesis
    by (simp add: omp_parallel_def)
qed

theorem numaLoop_zero_request_starts_default_team_witness:
  "numaLoop_begin
      \<lparr>omp_max_threads = 2, numa_configured_nodes = 1, gopt_memory_type = ''default'',
        omp_reads_as_unset = (=) 0\<rparr>
      (enqueue (SampleJob True []) (JobQueueT_new 0)) [] 0 0
   = Some \<lparr>jq = \<lparr>m_queue = [SampleJob True []], m_numthrs = 0, m_idle_count = 0, m_id = 0\<rparr>,
           freed = [], pinned = Some 0, thr = [AtStart, AtStart]\<rparr>"
  using numaLoop_zero_request_starts_default_team
    [where e = "\<lparr>omp_max_threads = 2, numa_configured_nodes = 1, gopt_memory_type = ''default'',
        omp_reads_as_unset = (=) 0\<rparr>"
       and q = "enqueue (SampleJob True []) (JobQueueT_new 0)" and fr = "[]" and numaNode = 0
       and run = sample_run and sched = "[]"
       and assist = "fst \<circ> DefaultJobQueueGroup_assist ([] :: sample_job JobQueueT list)"]
  by (simp add: numaLoop_begin_def omp_parallel_def JobQueueT_new_def enqueue_def
      numeral_2_eq_2)

end
